theory Spec2Isabelle
  imports Main
begin

section \<open>RpcDataProviderRemote: the remote side of the data-provider bridge\<close>

text \<open>
  The class \<^verbatim>\<open>RpcDataProviderRemote\<close> registers three handlers on an \<^verbatim>\<open>Rpc\<close>
  channel (\<^verbatim>\<open>initialize\<close>, \<^verbatim>\<open>getMessages\<close>, \<^verbatim>\<open>close\<close>) that share one closure
  variable, \<^verbatim>\<open>let provider: DataProvider\<close>. The embedding below keeps that variable, the
  messages the handlers and callbacks pass to \<^verbatim>\<open>rpc.send\<close>, and the method calls made on
  provider objects, in one record that every handler takes and returns. A thrown error or
  a rejected promise is the \<open>Inl\<close> branch of the handler's outcome.

  Each handler is modelled as running to completion. The only variable shared between
  handlers, \<^verbatim>\<open>provider\<close>, is read before the single \<^verbatim>\<open>await\<close> of a handler and
  not after it, so the outcome of a handler does not depend on what is interleaved with it.
\<close>

subsection \<open>JavaScript values\<close>

text \<open>
  A field that may be missing: \<^verbatim>\<open>undefined\<close>, \<^verbatim>\<open>null\<close>, or a value.
  \<^verbatim>\<open>a ?? b\<close> is \<open>nullish_coalesce a b\<close> and \<^verbatim>\<open>a != null\<close> is \<open>not_null a\<close>:
  both treat \<^verbatim>\<open>undefined\<close> and \<^verbatim>\<open>null\<close> alike.
\<close>

datatype 'a nullable = Undefined | Null | Value 'a

fun nullish_coalesce :: "'a nullable \<Rightarrow> 'a \<Rightarrow> 'a" where
  "nullish_coalesce (Value a) b = a"
| "nullish_coalesce Undefined b = b"
| "nullish_coalesce Null b = b"

fun not_null :: "'a nullable \<Rightarrow> bool" where
  "not_null (Value a) = True"
| "not_null Undefined = False"
| "not_null Null = False"

text \<open>
  An \<^verbatim>\<open>ArrayBuffer\<close> is an object: a JavaScript \<^verbatim>\<open>Set\<close> compares objects by identity.
  A buffer is therefore modelled by its address, and two records share a buffer exactly
  when their \<open>message\<close> fields are equal.
\<close>

type_synonym buffer = nat

text \<open>
  Modelled from the spec: the declarations of \<^verbatim>\<open>dataProviders/types\<close> are not among the
  sources. A raw record is "a byte-exact, unparsed message payload plus topic/timestamp
  metadata"; the handler reads only its \<^verbatim>\<open>message\<close> field. The result of
  \<^verbatim>\<open>provider.getMessages\<close> has the three fields that the handler destructures.
\<close>

record 't raw_message =
  topic :: string
  receiveTime :: 't
  message :: buffer

record ('t, 'v) get_messages_result =
  parsedMessages :: "'v list nullable"
  rosBinaryMessages :: "'t raw_message list nullable"
  bobjects :: "'v list nullable"

text \<open>An object literal, as the list of its properties: \<^verbatim>\<open>{ k: v }\<close> is \<open>[(k, v)]\<close>.\<close>

type_synonym 'a js_object = "(string \<times> 'a) list"

text \<open>
  What a handler can raise: the value a provider method threw or rejected with, an
  \<^verbatim>\<open>Error\<close> built by the handler itself, and the \<^verbatim>\<open>TypeError\<close> of a method call on
  \<^verbatim>\<open>undefined\<close>.
\<close>

datatype 'v error = Rejected 'v | Error string | TypeError

subsection \<open>The channel and the extension point\<close>

text \<open>
  \<^verbatim>\<open>rpc.send(topic, data)\<close> is modelled by the list of the messages sent so far. The
  three callbacks handed to \<^verbatim>\<open>provider.initialize\<close> are closures over \<^verbatim>\<open>rpc\<close>: each
  is a function from its argument to an effect on that list.
\<close>

record 'v callback_payload =
  type :: string
  data :: 'v

type_synonym 'v outbox = "(string \<times> 'v callback_payload) list"

definition send :: "string \<Rightarrow> 'v callback_payload \<Rightarrow> 'v outbox \<Rightarrow> 'v outbox" where
  "send name payload out = out @ [(name, payload)]"

record 'v extension_point =
  progressCallback :: "'v \<Rightarrow> 'v outbox \<Rightarrow> 'v outbox"
  reportMetadataCallback :: "'v \<Rightarrow> 'v outbox \<Rightarrow> 'v outbox"
  notifyPlayerManager :: "'v \<Rightarrow> 'v outbox \<Rightarrow> 'v outbox"

definition extensionPoint :: "'v extension_point" where
  "extensionPoint =
     \<lparr> progressCallback = (\<lambda>data.
         send ''extensionPointCallback'' \<lparr> type = ''progressCallback'', data = data \<rparr>),
       reportMetadataCallback = (\<lambda>data.
         send ''extensionPointCallback'' \<lparr> type = ''reportMetadataCallback'', data = data \<rparr>),
       notifyPlayerManager = (\<lambda>data.
         send ''extensionPointCallback'' \<lparr> type = ''notifyPlayerManager'', data = data \<rparr>) \<rparr>"

text \<open>
  A provider uses the extension point by calling one of its slots with a payload.
\<close>

datatype 'v invocation = Progress 'v | ReportMetadata 'v | NotifyPlayerManager 'v

fun invoke :: "'v extension_point \<Rightarrow> 'v invocation \<Rightarrow> 'v outbox \<Rightarrow> 'v outbox" where
  "invoke ep (Progress d) = progressCallback ep d"
| "invoke ep (ReportMetadata d) = reportMetadataCallback ep d"
| "invoke ep (NotifyPlayerManager d) = notifyPlayerManager ep d"

fun invoke_all :: "'v extension_point \<Rightarrow> 'v invocation list \<Rightarrow> 'v outbox \<Rightarrow> 'v outbox" where
  "invoke_all ep [] out = out"
| "invoke_all ep (i # is) out = invoke_all ep is (invoke ep i out)"

subsection \<open>Providers\<close>

text \<open>
  The provider and the factory \<^verbatim>\<open>getDataProvider\<close> are supplied by the environment. A
  provider object has an identity and a state of its own. A method call on it yields the
  slots of the extension point it invokes during the call, the outcome of the returned
  promise (\<open>Inl\<close> when it throws or rejects), and the provider's next state.
  The factory is taken to return an object, as its type says.

  Not modelled: \<^verbatim>\<open>setupWorker(rpc)\<close>, whose source is not at hand, and the promise
  that \<^verbatim>\<open>rpc.send\<close> returns, which \<^verbatim>\<open>notifyPlayerManager\<close> hands back to the
  provider. How \<^verbatim>\<open>Rpc\<close> turns the outcome of a handler into a reply message is
  outside the class as well: the handlers below end with their outcome.
\<close>

record 's provider_object =
  ident :: nat
  state :: 's

record ('s, 't, 'v) environment =
  getDataProvider :: "'v \<Rightarrow> 's"
  provider_initialize :: "'s \<Rightarrow> 'v invocation list \<times> ('v + 'v) \<times> 's"
  provider_getMessages :: "'s \<Rightarrow> 't \<Rightarrow> 't \<Rightarrow> string list js_object
      \<Rightarrow> 'v invocation list \<times> ('v + ('t, 'v) get_messages_result) \<times> 's"
  provider_close :: "'s \<Rightarrow> 'v invocation list \<times> ('v + unit) \<times> 's"

text \<open>The method calls that provider objects receive, with their arguments.\<close>

datatype 't provider_call =
  CallInitialize
| CallGetMessages 't 't "string list js_object"
| CallClose

text \<open>
  A provider for examples: \<^verbatim>\<open>initialize\<close> invokes the slots \<open>emits\<close> and resolves
  with \<open>metadata\<close>; each \<^verbatim>\<open>getMessages\<close> gives the next answer of \<open>script\<close>, and
  a batch without any field once the script is used up; \<^verbatim>\<open>close\<close> resolves.
\<close>

definition scripted_provider ::
  "'v \<Rightarrow> 'v invocation list \<Rightarrow> ('v + ('t, 'v) get_messages_result) list
     \<Rightarrow> (('v + ('t, 'v) get_messages_result) list, 't, 'v) environment" where
  "scripted_provider metadata emits script =
     \<lparr> getDataProvider = (\<lambda>descriptor. script),
       provider_initialize = (\<lambda>s. (emits, Inr metadata, s)),
       provider_getMessages = (\<lambda>s start end' filter.
         case s of
           [] \<Rightarrow> ([], Inr \<lparr> parsedMessages = Undefined, rosBinaryMessages = Undefined,
                             bobjects = Undefined \<rparr>, [])
         | a # s' \<Rightarrow> ([], a, s')),
       provider_close = (\<lambda>s. ([], Inr (), s)) \<rparr>"

subsection \<open>The state of the constructor's closure\<close>

text \<open>
  \<open>provider\<close> is the closure variable, \<open>None\<close> while it is \<^verbatim>\<open>undefined\<close>.
  \<open>created\<close> counts the objects the factory has built, which gives each its identity;
  \<open>calls\<close> records every method call made on a provider object; \<open>sent\<close> is what has
  been passed to \<^verbatim>\<open>rpc.send\<close>.
\<close>

record ('s, 't, 'v) remote =
  provider :: "'s provider_object option"
  created :: nat
  calls :: "(nat \<times> 't provider_call) list"
  sent :: "'v outbox"

definition new_remote :: "('s, 't, 'v) remote" where
  "new_remote = \<lparr> provider = None, created = 0, calls = [], sent = [] \<rparr>"

text \<open>The provider invokes a slot of the extension point it was given.\<close>

definition callback :: "'v invocation \<Rightarrow> ('s, 't, 'v) remote \<Rightarrow> ('s, 't, 'v) remote" where
  "callback i r = r\<lparr> sent := invoke extensionPoint i (sent r) \<rparr>"

subsection \<open>The handlers\<close>

text \<open>
  \<^verbatim>\<open>rpc.receive("initialize", async ({ childDescriptor }) => ...)\<close>: the factory's
  result is assigned to \<^verbatim>\<open>provider\<close> before \<^verbatim>\<open>initialize\<close> is called on it, and the
  handler returns the promise of \<^verbatim>\<open>provider.initialize\<close>.
\<close>

definition initialize_handler ::
  "('s, 't, 'v) environment \<Rightarrow> 'v \<Rightarrow> ('s, 't, 'v) remote \<Rightarrow> ('v error + 'v) \<times> ('s, 't, 'v) remote" where
  "initialize_handler env childDescriptor r =
     (let p = \<lparr> ident = created r, state = getDataProvider env childDescriptor \<rparr>;
          (invs, res, s') = provider_initialize env (state p);
          r' = r\<lparr> provider := Some (p\<lparr> state := s' \<rparr>),
                 created := Suc (created r),
                 calls := calls r @ [(ident p, CallInitialize)],
                 sent := invoke_all extensionPoint invs (sent r) \<rparr>
      in (case res of Inl e \<Rightarrow> Inl (Rejected e) | Inr metadata \<Rightarrow> Inr metadata, r'))"

text \<open>
  The \<^verbatim>\<open>Set\<close> of the \<^verbatim>\<open>getMessages\<close> handler, as the list of its elements in insertion
  order (the order of \<^verbatim>\<open>Array.from\<close>): \<^verbatim>\<open>add\<close> leaves the set alone when the element
  is already in it.
\<close>

definition Set_add :: "'a list \<Rightarrow> 'a \<Rightarrow> 'a list" where
  "Set_add s x = (if x \<in> set s then s else s @ [x])"

fun add_buffers :: "buffer list \<Rightarrow> 't raw_message list \<Rightarrow> buffer list" where
  "add_buffers arrayBuffers [] = arrayBuffers"
| "add_buffers arrayBuffers (m # ms) = add_buffers (Set_add arrayBuffers (message m)) ms"

record 't reply =
  messages :: "'t raw_message list"
  transferrables :: "buffer list"

text \<open>The part of the \<^verbatim>\<open>getMessages\<close> handler after the \<^verbatim>\<open>await\<close>.\<close>

definition reply_of :: "('t, 'v) get_messages_result \<Rightarrow> 'v error + 't reply" where
  "reply_of res =
     (let messagesToSend = nullish_coalesce (rosBinaryMessages res) []
      in if not_null (parsedMessages res) \<or> not_null (bobjects res)
         then Inl (Error ''RpcDataProvider only accepts raw messages (that still need to be parsed with ParseMessagesDataProvider)'')
         else Inr \<lparr> messages = messagesToSend,
                    transferrables = add_buffers [] messagesToSend \<rparr>)"

definition getMessages_handler ::
  "('s, 't, 'v) environment \<Rightarrow> 't \<Rightarrow> 't \<Rightarrow> string list \<Rightarrow> ('s, 't, 'v) remote
     \<Rightarrow> ('v error + 't reply) \<times> ('s, 't, 'v) remote" where
  "getMessages_handler env start end' topics r =
     (case provider r of
        None \<Rightarrow> (Inl TypeError, r)
      | Some p \<Rightarrow>
          (let (invs, res, s') =
                 provider_getMessages env (state p) start end' [(''rosBinaryMessages'', topics)];
               r' = r\<lparr> provider := Some (p\<lparr> state := s' \<rparr>),
                      calls := calls r @
                        [(ident p, CallGetMessages start end' [(''rosBinaryMessages'', topics)])],
                      sent := invoke_all extensionPoint invs (sent r) \<rparr>
           in (case res of Inl e \<Rightarrow> Inl (Rejected e) | Inr msgs \<Rightarrow> reply_of msgs, r')))"

text \<open>\<^verbatim>\<open>rpc.receive("close", () => provider.close())\<close>.\<close>

definition close_handler ::
  "('s, 't, 'v) environment \<Rightarrow> ('s, 't, 'v) remote \<Rightarrow> ('v error + unit) \<times> ('s, 't, 'v) remote" where
  "close_handler env r =
     (case provider r of
        None \<Rightarrow> (Inl TypeError, r)
      | Some p \<Rightarrow>
          (let (invs, res, s') = provider_close env (state p);
               r' = r\<lparr> provider := Some (p\<lparr> state := s' \<rparr>),
                      calls := calls r @ [(ident p, CallClose)],
                      sent := invoke_all extensionPoint invs (sent r) \<rparr>
           in (case res of Inl e \<Rightarrow> Inl (Rejected e) | Inr u \<Rightarrow> Inr u, r')))"

subsection \<open>Requests in sequence\<close>

text \<open>
  \<^verbatim>\<open>rpc.receive(name, handler)\<close> registers one handler per request name; a request is
  answered by the handler of its name, and requests are served one after the other.
\<close>

datatype ('t, 'v) request = Initialize 'v | GetMessages 't 't "string list" | Close

datatype ('t, 'v) response = Metadata 'v | Messages "'t reply" | Closed

fun is_Initialize :: "('t, 'v) request \<Rightarrow> bool" where
  "is_Initialize (Initialize d) = True"
| "is_Initialize (GetMessages start end' topics) = False"
| "is_Initialize Close = False"

fun receive ::
  "('s, 't, 'v) environment \<Rightarrow> ('t, 'v) request \<Rightarrow> ('s, 't, 'v) remote
     \<Rightarrow> ('v error + ('t, 'v) response) \<times> ('s, 't, 'v) remote" where
  "receive env (Initialize childDescriptor) r =
     (let (res, r') = initialize_handler env childDescriptor r in (map_sum id Metadata res, r'))"
| "receive env (GetMessages start end' topics) r =
     (let (res, r') = getMessages_handler env start end' topics r in (map_sum id Messages res, r'))"
| "receive env Close r =
     (let (res, r') = close_handler env r in (map_sum id (\<lambda>u. Closed) res, r'))"

fun serve ::
  "('s, 't, 'v) environment \<Rightarrow> ('t, 'v) request list \<Rightarrow> ('s, 't, 'v) remote
     \<Rightarrow> ('v error + ('t, 'v) response) list \<times> ('s, 't, 'v) remote" where
  "serve env [] r = ([], r)"
| "serve env (q # qs) r =
     (let (res, r') = receive env q r; (ress, r'') = serve env qs r' in (res # ress, r''))"

subsection \<open>Example data\<close>

text \<open>
  Three batches a provider may answer with: raw records only, two of the three on the same
  buffer; an empty but present \<^verbatim>\<open>parsedMessages\<close> beside the raw records; and no field
  at all. \<open>initialized script\<close> is the bridge after one \<^verbatim>\<open>initialize\<close> request on
  a scripted provider.
\<close>

definition raw_batch :: "(int, string) get_messages_result" where
  "raw_batch =
     \<lparr> parsedMessages = Undefined,
       rosBinaryMessages = Value
         [\<lparr> topic = ''topicA'', receiveTime = 1, message = 7 \<rparr>,
          \<lparr> topic = ''topicA'', receiveTime = 2, message = 7 \<rparr>,
          \<lparr> topic = ''topicA'', receiveTime = 3, message = 9 \<rparr>],
       bobjects = Null \<rparr>"

definition parsed_batch :: "(int, string) get_messages_result" where
  "parsed_batch =
     \<lparr> parsedMessages = Value [],
       rosBinaryMessages = Value [\<lparr> topic = ''topicA'', receiveTime = 1, message = 7 \<rparr>],
       bobjects = Undefined \<rparr>"

definition absent_batch :: "(int, string) get_messages_result" where
  "absent_batch = \<lparr> parsedMessages = Null, rosBinaryMessages = Undefined, bobjects = Undefined \<rparr>"

definition example_provider ::
  "(string + (int, string) get_messages_result) list
     \<Rightarrow> ((string + (int, string) get_messages_result) list, int, string) environment" where
  "example_provider script =
     scripted_provider ''metadata'' [ReportMetadata ''totalMessages: 10''] script"

definition initialized ::
  "(string + (int, string) get_messages_result) list
     \<Rightarrow> ((string + (int, string) get_messages_result) list, int, string) remote" where
  "initialized script = snd (initialize_handler (example_provider script) ''D'' new_remote)"

text \<open>
  The identity of the installed provider is one the factory has already given out.
\<close>

definition provider_known :: "('s, 't, 'v) remote \<Rightarrow> bool" where
  "provider_known r = (case provider r of None \<Rightarrow> True | Some p \<Rightarrow> ident p < created r)"

section \<open>Properties\<close>

subsection \<open>Auxiliary facts\<close>

lemma Set_add_distinct: "distinct s \<Longrightarrow> distinct (Set_add s x)"
  by (simp add: Set_add_def)

lemma set_Set_add: "set (Set_add s x) = insert x (set s)"
  by (auto simp: Set_add_def)

lemma add_buffers_distinct: "distinct acc \<Longrightarrow> distinct (add_buffers acc ms)"
  by (induction ms arbitrary: acc) (simp_all add: Set_add_distinct)

lemma set_add_buffers: "set (add_buffers acc ms) = set acc \<union> message ` set ms"
  by (induction ms arbitrary: acc) (auto simp: set_Set_add)

lemma count_list_distinct:
  "distinct xs \<Longrightarrow> count_list xs x = (if x \<in> set xs then 1 else 0)"
  by (induction xs) auto

lemma reply_of_Inr:
  "reply_of res = Inr rep \<Longrightarrow>
     messages rep = nullish_coalesce (rosBinaryMessages res) [] \<and>
     transferrables rep = add_buffers [] (messages rep)"
  by (auto simp: reply_of_def Let_def split: if_splits)

lemma getMessages_handler_None:
  "provider r = None \<Longrightarrow> getMessages_handler env start end' topics r = (Inl TypeError, r)"
  by (simp add: getMessages_handler_def)

lemma getMessages_handler_Some:
  assumes "provider r = Some p"
    and "provider_getMessages env (state p) start end' [(''rosBinaryMessages'', topics)]
           = (invs, res, s')"
  shows "getMessages_handler env start end' topics r =
           (case res of Inl e \<Rightarrow> Inl (Rejected e) | Inr msgs \<Rightarrow> reply_of msgs,
            r\<lparr> provider := Some (p\<lparr> state := s' \<rparr>),
               calls := calls r @
                 [(ident p, CallGetMessages start end' [(''rosBinaryMessages'', topics)])],
               sent := invoke_all extensionPoint invs (sent r) \<rparr>)"
  using assms by (simp add: getMessages_handler_def)

lemma getMessages_handler_Inr:
  assumes "fst (getMessages_handler env start end' topics r) = Inr rep"
  shows "transferrables rep = add_buffers [] (messages rep)"
proof (cases "provider r")
  case None
  with assms show ?thesis by (simp add: getMessages_handler_None)
next
  case (Some p)
  obtain invs res s' where
    "provider_getMessages env (state p) start end' [(''rosBinaryMessages'', topics)]
       = (invs, res, s')"
    by (metis prod_cases3)
  with Some assms show ?thesis
    by (cases res) (simp_all add: getMessages_handler_Some reply_of_Inr)
qed

lemma close_handler_None:
  "provider r = None \<Longrightarrow> close_handler env r = (Inl TypeError, r)"
  by (simp add: close_handler_def)

lemma close_handler_Some:
  assumes "provider r = Some p" and "provider_close env (state p) = (invs, res, s')"
  shows "close_handler env r =
           (case res of Inl e \<Rightarrow> Inl (Rejected e) | Inr u \<Rightarrow> Inr u,
            r\<lparr> provider := Some (p\<lparr> state := s' \<rparr>),
               calls := calls r @ [(ident p, CallClose)],
               sent := invoke_all extensionPoint invs (sent r) \<rparr>)"
  using assms by (simp add: close_handler_def)

lemma initialize_handler_eq:
  assumes "provider_initialize env (getDataProvider env d) = (invs, res, s')"
  shows "initialize_handler env d r =
           (case res of Inl e \<Rightarrow> Inl (Rejected e) | Inr m \<Rightarrow> Inr m,
            r\<lparr> provider := Some \<lparr> ident = created r, state = s' \<rparr>,
               created := Suc (created r),
               calls := calls r @ [(created r, CallInitialize)],
               sent := invoke_all extensionPoint invs (sent r) \<rparr>)"
  using assms by (simp add: initialize_handler_def)

lemma extensionPoint_slots:
  "progressCallback extensionPoint d out =
     out @ [(''extensionPointCallback'', \<lparr> type = ''progressCallback'', data = d \<rparr>)]"
  "reportMetadataCallback extensionPoint d out =
     out @ [(''extensionPointCallback'', \<lparr> type = ''reportMetadataCallback'', data = d \<rparr>)]"
  "notifyPlayerManager extensionPoint d out =
     out @ [(''extensionPointCallback'', \<lparr> type = ''notifyPlayerManager'', data = d \<rparr>)]"
  by (simp_all add: extensionPoint_def send_def)

lemma initialized_eq:
  "initialized script =
     \<lparr> provider = Some \<lparr> ident = 0, state = script \<rparr>, created = 1,
       calls = [(0, CallInitialize)],
       sent = [(''extensionPointCallback'',
                \<lparr> type = ''reportMetadataCallback'', data = ''totalMessages: 10'' \<rparr>)] \<rparr>"
  by (simp add: initialized_def initialize_handler_def example_provider_def
      scripted_provider_def new_remote_def extensionPoint_def send_def)

lemma example_provider_getMessages:
  "provider_getMessages (example_provider script) (a # s) start end' f = ([], a, s)"
  by (simp add: example_provider_def scripted_provider_def)

lemma getMessages_handler_calls:
  "provider r = Some p \<Longrightarrow>
     calls (snd (getMessages_handler env start end' topics r)) =
       calls r @ [(ident p, CallGetMessages start end' [(''rosBinaryMessages'', topics)])]"
  by (simp add: getMessages_handler_def split: prod.splits)

lemma getMessages_handler_outcome:
  "provider r = Some p \<Longrightarrow>
     fst (getMessages_handler env start end' topics r) =
       (case fst (snd (provider_getMessages env (state p) start end'
                         [(''rosBinaryMessages'', topics)])) of
          Inl e \<Rightarrow> Inl (Rejected e) | Inr batch \<Rightarrow> reply_of batch)"
  by (simp add: getMessages_handler_def split_beta)


lemma sent_callback:
  "sent (callback (Progress x) r) =
     sent r @ [(''extensionPointCallback'', \<lparr> type = ''progressCallback'', data = x \<rparr>)]"
  "sent (callback (ReportMetadata x) r) =
     sent r @ [(''extensionPointCallback'', \<lparr> type = ''reportMetadataCallback'', data = x \<rparr>)]"
  "sent (callback (NotifyPlayerManager x) r) =
     sent r @ [(''extensionPointCallback'', \<lparr> type = ''notifyPlayerManager'', data = x \<rparr>)]"
  by (simp_all add: callback_def extensionPoint_slots)

lemma invoke_all_extensionPoint:
  "invoke_all extensionPoint invs out =
     out @ map (\<lambda>i. (''extensionPointCallback'',
                case i of
                  Progress x \<Rightarrow> \<lparr> type = ''progressCallback'', data = x \<rparr>
                | ReportMetadata x \<Rightarrow> \<lparr> type = ''reportMetadataCallback'', data = x \<rparr>
                | NotifyPlayerManager x \<Rightarrow> \<lparr> type = ''notifyPlayerManager'', data = x \<rparr>)) invs"
proof (induction invs arbitrary: out)
  case Nil
  show ?case by simp
next
  case (Cons i invs)
  show ?case by (cases i) (simp_all add: Cons.IH extensionPoint_slots)
qed

lemma example_provider_close:
  "provider_close (example_provider script) s = ([], Inr (), s)"
  by (simp add: example_provider_def scripted_provider_def)

lemma example_provider_initialize:
  "provider_initialize (example_provider script) s =
     ([ReportMetadata ''totalMessages: 10''], Inr ''metadata'', s)"
  "getDataProvider (example_provider script) d = script"
  by (simp_all add: example_provider_def scripted_provider_def)

lemma provider_known_new_remote: "provider_known new_remote"
  by (simp add: provider_known_def new_remote_def)

lemma provider_known_receive:
  "provider_known r \<Longrightarrow> provider_known (snd (receive env q r))"
  by (cases q)
     (auto simp: provider_known_def initialize_handler_def getMessages_handler_def
        close_handler_def split: option.splits prod.splits)

lemma provider_known_serve:
  "provider_known r \<Longrightarrow> provider_known (snd (serve env qs r))"
proof (induction qs arbitrary: r)
  case Nil
  then show ?case by simp
next
  case (Cons q qs)
  from Cons.IH [OF provider_known_receive [OF Cons.prems, of env q]]
  show ?case by (simp add: split_beta)
qed

lemma provider_known_callback:
  "provider_known r \<Longrightarrow> provider_known (callback i r)"
  by (simp add: provider_known_def callback_def split: option.splits)

subsection \<open>The payload contract of \<^verbatim>\<open>getMessages\<close>\<close>

text \<open>
  C1. When the batch that the provider resolves \<^verbatim>\<open>getMessages\<close> with has a
  \<^verbatim>\<open>parsedMessages\<close> or a \<^verbatim>\<open>bobjects\<close> field that is neither \<^verbatim>\<open>null\<close> nor
  \<^verbatim>\<open>undefined\<close>, the handler throws its \<^verbatim>\<open>Error\<close>: the outcome is a failure and
  carries no messages.
\<close>

theorem getMessages_fails_on_parsed_or_bobjects:
  assumes "provider r = Some p"
    and "provider_getMessages env (state p) start end' [(''rosBinaryMessages'', topics)]
           = (invs, Inr batch, s')"
    and "not_null (parsedMessages batch) \<or> not_null (bobjects batch)"
  shows "fst (getMessages_handler env start end' topics r) =
           Inl (Error ''RpcDataProvider only accepts raw messages (that still need to be parsed with ParseMessagesDataProvider)'')"
  using assms by (auto simp: getMessages_handler_Some reply_of_def)

text \<open>
  Witness for C1: a provider that answers with raw records and an empty, but present,
  \<^verbatim>\<open>parsedMessages\<close> array.
\<close>

theorem getMessages_fails_on_parsed_or_bobjects_witness:
  "provider (initialized [Inr parsed_batch]) = Some \<lparr> ident = 0, state = [Inr parsed_batch] \<rparr>
   \<and> provider_getMessages (example_provider [Inr parsed_batch]) [Inr parsed_batch] 0 100
        [(''rosBinaryMessages'', [''topicA''])] = ([], Inr parsed_batch, [])
   \<and> not_null (parsedMessages parsed_batch)
   \<and> fst (getMessages_handler (example_provider [Inr parsed_batch]) 0 100 [''topicA'']
          (initialized [Inr parsed_batch])) =
       Inl (Error ''RpcDataProvider only accepts raw messages (that still need to be parsed with ParseMessagesDataProvider)'')"
proof -
  have h1: "provider (initialized [Inr parsed_batch])
              = Some \<lparr> ident = 0, state = [Inr parsed_batch] \<rparr>"
    by (simp add: initialized_eq)
  have h2: "provider_getMessages (example_provider [Inr parsed_batch])
              (state \<lparr> ident = 0, state = [Inr parsed_batch] \<rparr>) 0 100
              [(''rosBinaryMessages'', [''topicA''])] = ([], Inr parsed_batch, [])"
    by (simp add: example_provider_getMessages)
  have h3: "not_null (parsedMessages parsed_batch) \<or> not_null (bobjects parsed_batch)"
    by (simp add: parsed_batch_def)
  from getMessages_fails_on_parsed_or_bobjects [OF h1 h2 h3] h1 h2 h3
  show ?thesis by (simp add: parsed_batch_def)
qed

text \<open>
  C2. In every successful \<^verbatim>\<open>getMessages\<close> reply, a buffer occurs in the transfer list
  once if some replied record refers to it, and not at all otherwise.
\<close>

theorem transferrables_each_buffer_once:
  assumes "fst (getMessages_handler env start end' topics r) = Inr rep"
  shows "count_list (transferrables rep) b =
           (if b \<in> message ` set (messages rep) then 1 else 0)"
proof -
  from assms have t: "transferrables rep = add_buffers [] (messages rep)"
    by (rule getMessages_handler_Inr)
  have "distinct (transferrables rep)"
    unfolding t by (rule add_buffers_distinct) simp
  moreover have "set (transferrables rep) = message ` set (messages rep)"
    unfolding t by (simp add: set_add_buffers)
  ultimately show ?thesis
    by (simp add: count_list_distinct)
qed

text \<open>
  Witness for C2: three records, two of them on buffer 7; the transfer list is \<open>[7, 9]\<close>.
\<close>

theorem transferrables_each_buffer_once_witness:
  "fst (getMessages_handler (example_provider [Inr raw_batch]) 0 100 [''topicA'']
          (initialized [Inr raw_batch])) =
     Inr \<lparr> messages =
             [\<lparr> topic = ''topicA'', receiveTime = 1, message = 7 \<rparr>,
              \<lparr> topic = ''topicA'', receiveTime = 2, message = 7 \<rparr>,
              \<lparr> topic = ''topicA'', receiveTime = 3, message = 9 \<rparr>],
           transferrables = [7, 9] \<rparr>
   \<and> count_list [7, 9 :: buffer] 7 = 1"
proof -
  have h: "fst (getMessages_handler (example_provider [Inr raw_batch]) 0 100 [''topicA'']
          (initialized [Inr raw_batch])) =
     Inr \<lparr> messages =
             [\<lparr> topic = ''topicA'', receiveTime = 1, message = 7 \<rparr>,
              \<lparr> topic = ''topicA'', receiveTime = 2, message = 7 \<rparr>,
              \<lparr> topic = ''topicA'', receiveTime = 3, message = 9 \<rparr>],
           transferrables = [7, 9] \<rparr>"
    by (simp add: getMessages_handler_def initialized_eq example_provider_getMessages
        reply_of_def raw_batch_def Set_add_def)
  from transferrables_each_buffer_once [OF h, of 7] h show ?thesis
    by simp
qed

text \<open>
  C10. When the batch has no parsed or object field and its \<^verbatim>\<open>rosBinaryMessages\<close>
  field is \<^verbatim>\<open>null\<close> or \<^verbatim>\<open>undefined\<close>, the handler replies with an empty message
  list and an empty transfer list.
\<close>

theorem getMessages_absent_raw_field_replies_empty:
  assumes "provider r = Some p"
    and "provider_getMessages env (state p) start end' [(''rosBinaryMessages'', topics)]
           = (invs, Inr batch, s')"
    and "\<not> not_null (parsedMessages batch)" and "\<not> not_null (bobjects batch)"
    and "rosBinaryMessages batch = Undefined \<or> rosBinaryMessages batch = Null"
  shows "fst (getMessages_handler env start end' topics r) =
           Inr \<lparr> messages = [], transferrables = [] \<rparr>"
  using assms by (auto simp: getMessages_handler_Some reply_of_def)

text \<open>Witness for C10: a batch whose fields are all \<^verbatim>\<open>null\<close> or \<^verbatim>\<open>undefined\<close>.\<close>

theorem getMessages_absent_raw_field_replies_empty_witness:
  "provider (initialized [Inr absent_batch]) = Some \<lparr> ident = 0, state = [Inr absent_batch] \<rparr>
   \<and> provider_getMessages (example_provider [Inr absent_batch]) [Inr absent_batch] 0 100
        [(''rosBinaryMessages'', [''topicA''])] = ([], Inr absent_batch, [])
   \<and> \<not> not_null (parsedMessages absent_batch) \<and> \<not> not_null (bobjects absent_batch)
   \<and> rosBinaryMessages absent_batch = Undefined
   \<and> fst (getMessages_handler (example_provider [Inr absent_batch]) 0 100 [''topicA'']
          (initialized [Inr absent_batch])) =
       Inr \<lparr> messages = [], transferrables = [] \<rparr>"
proof -
  have h1: "provider (initialized [Inr absent_batch])
              = Some \<lparr> ident = 0, state = [Inr absent_batch] \<rparr>"
    by (simp add: initialized_eq)
  have h2: "provider_getMessages (example_provider [Inr absent_batch])
              (state \<lparr> ident = 0, state = [Inr absent_batch] \<rparr>) 0 100
              [(''rosBinaryMessages'', [''topicA''])] = ([], Inr absent_batch, [])"
    by (simp add: example_provider_getMessages)
  have h3: "\<not> not_null (parsedMessages absent_batch)"
    and h4: "\<not> not_null (bobjects absent_batch)"
    and h5: "rosBinaryMessages absent_batch = Undefined \<or> rosBinaryMessages absent_batch = Null"
    by (simp_all add: absent_batch_def)
  from getMessages_absent_raw_field_replies_empty [OF h1 h2 h3 h4 h5] h1 h2 h3 h4
  show ?thesis by (simp add: absent_batch_def)
qed

subsection \<open>What \<^verbatim>\<open>getMessages\<close> forwards to the provider\<close>

text \<open>
  C4, as stated, fails: the claim names the field of the topic filter \<^verbatim>\<open>rawOnly\<close>.
  The handler passes the object literal \<^verbatim>\<open>{ rosBinaryMessages: topics }\<close>, which
  has no property of that name. For the request \<^verbatim>\<open>getMessages(0, 100, ["topicA"])\<close>
  the call that reaches the provider is not the one the claim describes.
\<close>

theorem getMessages_filter_not_rawOnly:
  "calls (snd (getMessages_handler (example_provider [Inr raw_batch]) 0 100 [''topicA'']
            (initialized [Inr raw_batch]))) =
     calls (initialized [Inr raw_batch]) @
       [(0, CallGetMessages 0 100 [(''rosBinaryMessages'', [''topicA''])])]
   \<and> map_of [(''rosBinaryMessages'', [''topicA''])] ''rawOnly'' \<noteq> Some [''topicA'']
   \<and> calls (snd (getMessages_handler (example_provider [Inr raw_batch]) 0 100 [''topicA'']
            (initialized [Inr raw_batch]))) \<noteq>
     calls (initialized [Inr raw_batch]) @
       [(0, CallGetMessages 0 100 [(''rawOnly'', [''topicA''])])]"
  by (simp add: getMessages_handler_calls [where p = "\<lparr> ident = 0, state = [Inr raw_batch] \<rparr>"]
      initialized_eq)

text \<open>
  C4, amended: for every \<^verbatim>\<open>getMessages(start, end, topics)\<close> request that finds a
  provider installed, that provider receives exactly one call,
  \<^verbatim>\<open>getMessages(start, end, filter)\<close>, whose filter has the single property
  \<^verbatim>\<open>rosBinaryMessages\<close>, holding the request's topics; the outcome of the request
  is computed from the provider's answer to that call.
\<close>

theorem getMessages_forwards_rosBinaryMessages_filter:
  assumes "provider r = Some p"
  shows "calls (snd (getMessages_handler env start end' topics r)) =
           calls r @ [(ident p, CallGetMessages start end' [(''rosBinaryMessages'', topics)])]
    \<and> fst (getMessages_handler env start end' topics r) =
        (case fst (snd (provider_getMessages env (state p) start end'
                          [(''rosBinaryMessages'', topics)])) of
           Inl e \<Rightarrow> Inl (Rejected e) | Inr batch \<Rightarrow> reply_of batch)"
  using assms by (simp add: getMessages_handler_calls getMessages_handler_outcome)

text \<open>
  Witness for the amended C4: the calls recorded after \<^verbatim>\<open>initialize\<close> and one
  \<^verbatim>\<open>getMessages(0, 100, ["topicA"])\<close>.
\<close>

theorem getMessages_forwards_rosBinaryMessages_filter_witness:
  "provider (initialized [Inr raw_batch]) = Some \<lparr> ident = 0, state = [Inr raw_batch] \<rparr>
   \<and> calls (snd (getMessages_handler (example_provider [Inr raw_batch]) 0 100 [''topicA'']
            (initialized [Inr raw_batch]))) =
       [(0, CallInitialize), (0, CallGetMessages 0 100 [(''rosBinaryMessages'', [''topicA''])])]"
proof -
  have h: "provider (initialized [Inr raw_batch]) = Some \<lparr> ident = 0, state = [Inr raw_batch] \<rparr>"
    by (simp add: initialized_eq)
  from getMessages_forwards_rosBinaryMessages_filter
         [OF h, of "example_provider [Inr raw_batch]" 0 100 "[''topicA'']"] h
  show ?thesis by (simp add: initialized_eq)
qed

text \<open>
  C5. The call that reaches the provider carries \<open>start\<close> and \<open>end\<close> as the
  request gave them, in the same positions, whatever their order: nothing in the handler
  compares or changes them, and the outcome of the request is computed from the provider's
  answer for that range.
\<close>

theorem getMessages_passes_range_unmodified:
  assumes "provider r = Some p"
  shows "\<exists>filter.
           calls (snd (getMessages_handler env start end' topics r)) =
             calls r @ [(ident p, CallGetMessages start end' filter)]
         \<and> fst (getMessages_handler env start end' topics r) =
             (case fst (snd (provider_getMessages env (state p) start end' filter)) of
                Inl e \<Rightarrow> Inl (Rejected e) | Inr batch \<Rightarrow> reply_of batch)"
  using assms by (simp add: getMessages_handler_calls getMessages_handler_outcome)

text \<open>
  Witness for C5: a request whose start, 100, is after its end, 0.
\<close>

theorem getMessages_passes_range_unmodified_witness:
  "(100::int) > 0
   \<and> provider (initialized []) = Some \<lparr> ident = 0, state = [] \<rparr>
   \<and> (\<exists>filter. calls (snd (getMessages_handler (example_provider []) 100 0 [''topicA'']
                    (initialized []))) =
         calls (initialized []) @ [(0, CallGetMessages 100 0 filter)])"
proof -
  have h: "provider (initialized []) = Some \<lparr> ident = 0, state = [] \<rparr>"
    by (simp add: initialized_eq)
  from getMessages_passes_range_unmodified [OF h, of "example_provider []" 100 0 "[''topicA'']"]
  have "\<exists>filter. calls (snd (getMessages_handler (example_provider []) 100 0 [''topicA'']
                    (initialized []))) =
         calls (initialized []) @ [(0, CallGetMessages 100 0 filter)]"
    by auto
  with h show ?thesis by simp
qed

subsection \<open>Failures\<close>

text \<open>
  C6. When the provider's \<^verbatim>\<open>getMessages\<close> throws or rejects with \<open>e\<close>, the
  handler fails with \<open>e\<close> after that single call; the same provider object stays in
  the variable and the factory is not called. A following \<^verbatim>\<open>getMessages\<close> request
  is forwarded to the same object, and its outcome is the one the handler computes from
  whatever batch the provider then resolves with.
\<close>

theorem provider_failure_is_request_scoped:
  assumes "provider r = Some p"
    and "provider_getMessages env (state p) start end' [(''rosBinaryMessages'', topics)]
           = (invs, Inl e, s')"
    and "r' = snd (getMessages_handler env start end' topics r)"
  shows "fst (getMessages_handler env start end' topics r) = Inl (Rejected e)
    \<and> provider r' = Some (p\<lparr> state := s' \<rparr>)
    \<and> created r' = created r
    \<and> calls r' = calls r @
         [(ident p, CallGetMessages start end' [(''rosBinaryMessages'', topics)])]
    \<and> calls (snd (getMessages_handler env start2 end2 topics2 r')) = calls r' @
         [(ident p, CallGetMessages start2 end2 [(''rosBinaryMessages'', topics2)])]
    \<and> (\<forall>invs2 batch s2.
          provider_getMessages env s' start2 end2 [(''rosBinaryMessages'', topics2)]
            = (invs2, Inr batch, s2)
          \<longrightarrow> fst (getMessages_handler env start2 end2 topics2 r') = reply_of batch)"
proof -
  from assms have r': "r' = r\<lparr> provider := Some (p\<lparr> state := s' \<rparr>),
               calls := calls r @
                 [(ident p, CallGetMessages start end' [(''rosBinaryMessages'', topics)])],
               sent := invoke_all extensionPoint invs (sent r) \<rparr>"
    and out: "fst (getMessages_handler env start end' topics r) = Inl (Rejected e)"
    by (simp_all add: getMessages_handler_Some)
  have p': "provider r' = Some (p\<lparr> state := s' \<rparr>)"
    by (simp add: r')
  have next_calls: "calls (snd (getMessages_handler env start2 end2 topics2 r')) = calls r' @
         [(ident p, CallGetMessages start2 end2 [(''rosBinaryMessages'', topics2)])]"
    using getMessages_handler_calls [OF p'] by simp
  have next_reply: "fst (getMessages_handler env start2 end2 topics2 r') = reply_of batch"
    if "provider_getMessages env s' start2 end2 [(''rosBinaryMessages'', topics2)]
            = (invs2, Inr batch, s2)" for invs2 batch s2
    using getMessages_handler_Some [OF p', of env start2 end2 topics2 invs2 "Inr batch" s2] that
    by simp
  from out p' next_calls next_reply show ?thesis
    by (simp add: r')
qed

text \<open>
  Witness for C6: the provider rejects the first \<^verbatim>\<open>getMessages\<close> with
  \<^verbatim>\<open>"boom"\<close> and answers the second with raw records; the second request succeeds.
\<close>

theorem provider_failure_is_request_scoped_witness:
  "provider (initialized [Inl ''boom'', Inr raw_batch])
     = Some \<lparr> ident = 0, state = [Inl ''boom'', Inr raw_batch] \<rparr>
   \<and> provider_getMessages (example_provider [Inl ''boom'', Inr raw_batch])
        [Inl ''boom'', Inr raw_batch] 0 100 [(''rosBinaryMessages'', [''topicA''])]
       = ([], Inl ''boom'', [Inr raw_batch])
   \<and> fst (getMessages_handler (example_provider [Inl ''boom'', Inr raw_batch]) 0 100 [''topicA'']
          (initialized [Inl ''boom'', Inr raw_batch])) = Inl (Rejected ''boom'')
   \<and> fst (getMessages_handler (example_provider [Inl ''boom'', Inr raw_batch]) 0 100 [''topicA'']
          (snd (getMessages_handler (example_provider [Inl ''boom'', Inr raw_batch]) 0 100
             [''topicA''] (initialized [Inl ''boom'', Inr raw_batch])))) =
       Inr \<lparr> messages =
             [\<lparr> topic = ''topicA'', receiveTime = 1, message = 7 \<rparr>,
              \<lparr> topic = ''topicA'', receiveTime = 2, message = 7 \<rparr>,
              \<lparr> topic = ''topicA'', receiveTime = 3, message = 9 \<rparr>],
           transferrables = [7, 9] \<rparr>"
proof -
  have h1: "provider (initialized [Inl ''boom'', Inr raw_batch])
     = Some \<lparr> ident = 0, state = [Inl ''boom'', Inr raw_batch] \<rparr>"
    by (simp add: initialized_eq)
  have h2: "provider_getMessages (example_provider [Inl ''boom'', Inr raw_batch])
        (state \<lparr> ident = 0, state = [Inl ''boom'', Inr raw_batch] \<rparr>) 0 100
        [(''rosBinaryMessages'', [''topicA''])]
       = ([], Inl ''boom'', [Inr raw_batch])"
    by (simp add: example_provider_getMessages)
  have h3: "provider_getMessages (example_provider [Inl ''boom'', Inr raw_batch])
        [Inr raw_batch] 0 100 [(''rosBinaryMessages'', [''topicA''])]
       = ([], Inr raw_batch, [])"
    by (simp add: example_provider_getMessages)
  have h4: "reply_of raw_batch = Inr \<lparr> messages =
             [\<lparr> topic = ''topicA'', receiveTime = 1, message = 7 \<rparr>,
              \<lparr> topic = ''topicA'', receiveTime = 2, message = 7 \<rparr>,
              \<lparr> topic = ''topicA'', receiveTime = 3, message = 9 \<rparr>],
           transferrables = [7, 9] \<rparr>"
    by (simp add: reply_of_def raw_batch_def Set_add_def)
  from provider_failure_is_request_scoped [OF h1 h2 refl, of 0 100 "[''topicA'']"] h1 h2 h3 h4
  show ?thesis by simp
qed

text \<open>
  C9. As long as no \<^verbatim>\<open>initialize\<close> request has been served, the variable is
  \<^verbatim>\<open>undefined\<close>: every \<^verbatim>\<open>getMessages\<close> and \<^verbatim>\<open>close\<close> request fails with
  the \<^verbatim>\<open>TypeError\<close> of the method call, and leaves everything as it was.
\<close>

theorem requests_before_initialize_fail:
  assumes "provider r = None" and "\<forall>q \<in> set qs. \<not> is_Initialize q"
  shows "serve env qs r = (map (\<lambda>q. Inl TypeError) qs, r)"
  using assms
proof (induction qs)
  case Nil
  show ?case by simp
next
  case (Cons q qs)
  from Cons.prems have "receive env q r = (Inl TypeError, r)"
    by (cases q) (simp_all add: getMessages_handler_None close_handler_None)
  with Cons show ?case by simp
qed

text \<open>
  Witness for C9: a \<^verbatim>\<open>getMessages\<close> and a \<^verbatim>\<open>close\<close> request on a fresh bridge.
\<close>

theorem requests_before_initialize_fail_witness:
  "provider (new_remote :: ((string + (int, string) get_messages_result) list, int, string) remote)
     = None
   \<and> map is_Initialize [GetMessages 0 100 [''topicA''], Close :: (int, string) request]
       = [False, False]
   \<and> serve (example_provider [Inr raw_batch]) [GetMessages 0 100 [''topicA''], Close] new_remote
       = ([Inl TypeError, Inl TypeError], new_remote)"
proof -
  have h1: "provider
      (new_remote :: ((string + (int, string) get_messages_result) list, int, string) remote)
        = None"
    by (simp add: new_remote_def)
  have h2: "\<forall>q \<in> set [GetMessages 0 100 [''topicA''], Close :: (int, string) request].
              \<not> is_Initialize q"
    by simp
  from requests_before_initialize_fail [OF h1 h2, of "example_provider [Inr raw_batch]"] h1
  show ?thesis by simp
qed

subsection \<open>Initialisation, replacement and closing\<close>

text \<open>
  C7. The outcome of the \<^verbatim>\<open>initialize\<close> handler is that of
  \<^verbatim>\<open>provider.initialize\<close>: the metadata it resolves with, or its error. Every slot
  the provider invokes during the call adds one \<^verbatim>\<open>extensionPointCallback\<close> message
  with the slot's tag and the payload, in order; so does every invocation of a slot in any
  later state \<open>r1\<close>.
\<close>

theorem initialize_wires_extension_point:
  assumes "provider_initialize env (getDataProvider env d) = (invs, res, s')"
  shows "fst (initialize_handler env d r) =
           (case res of Inl e \<Rightarrow> Inl (Rejected e) | Inr metadata \<Rightarrow> Inr metadata)
    \<and> sent (snd (initialize_handler env d r)) =
        sent r @ map (\<lambda>i. (''extensionPointCallback'',
                case i of
                  Progress x \<Rightarrow> \<lparr> type = ''progressCallback'', data = x \<rparr>
                | ReportMetadata x \<Rightarrow> \<lparr> type = ''reportMetadataCallback'', data = x \<rparr>
                | NotifyPlayerManager x \<Rightarrow> \<lparr> type = ''notifyPlayerManager'', data = x \<rparr>)) invs
    \<and> sent (callback (Progress x) r1) =
        sent r1 @ [(''extensionPointCallback'', \<lparr> type = ''progressCallback'', data = x \<rparr>)]
    \<and> sent (callback (ReportMetadata x) r1) =
        sent r1 @ [(''extensionPointCallback'', \<lparr> type = ''reportMetadataCallback'', data = x \<rparr>)]
    \<and> sent (callback (NotifyPlayerManager x) r1) =
        sent r1 @ [(''extensionPointCallback'', \<lparr> type = ''notifyPlayerManager'', data = x \<rparr>)]"
  using assms
  by (simp add: initialize_handler_eq sent_callback invoke_all_extensionPoint)

text \<open>
  Witness for C7: the provider reports metadata through its slot while
  \<^verbatim>\<open>initialize\<close> runs, and notifies the player manager afterwards.
\<close>

theorem initialize_wires_extension_point_witness:
  "provider_initialize (example_provider []) (getDataProvider (example_provider []) ''D'')
     = ([ReportMetadata ''totalMessages: 10''], Inr ''metadata'', [])
   \<and> fst (initialize_handler (example_provider []) ''D'' new_remote) = Inr ''metadata''
   \<and> sent (snd (initialize_handler (example_provider []) ''D'' new_remote)) =
       [(''extensionPointCallback'',
           \<lparr> type = ''reportMetadataCallback'', data = ''totalMessages: 10'' \<rparr>)]
   \<and> sent (callback (NotifyPlayerManager ''n'') (initialized [])) =
       [(''extensionPointCallback'',
           \<lparr> type = ''reportMetadataCallback'', data = ''totalMessages: 10'' \<rparr>),
        (''extensionPointCallback'', \<lparr> type = ''notifyPlayerManager'', data = ''n'' \<rparr>)]"
proof -
  have h: "provider_initialize (example_provider []) (getDataProvider (example_provider []) ''D'')
     = ([ReportMetadata ''totalMessages: 10''], Inr ''metadata'', [])"
    by (simp add: example_provider_initialize)
  from initialize_wires_extension_point
         [OF h, where r = new_remote and x = "''n''" and ?r1.0 = "initialized []"] h
  show ?thesis by (simp add: new_remote_def initialized_eq)
qed



text \<open>
  C3, as stated, fails: the callbacks do not look at whether \<^verbatim>\<open>close\<close> has been
  handled. After \<^verbatim>\<open>initialize\<close> and a \<^verbatim>\<open>close\<close> that resolved, an invocation
  of the progress slot still sends a message.
\<close>

theorem callback_after_close_is_forwarded:
  "fst (close_handler (example_provider []) (initialized [])) = Inr ()
   \<and> sent (callback (Progress ''50%'') (snd (close_handler (example_provider []) (initialized []))))
       \<noteq> sent (snd (close_handler (example_provider []) (initialized [])))"
  by (simp add: close_handler_def initialized_eq example_provider_close sent_callback)

text \<open>
  C3, amended: after a \<^verbatim>\<open>close\<close> request's handler has resolved, each subsequent
  invocation of the progress, metadata or notify slot is still forwarded as exactly one
  \<^verbatim>\<open>extensionPointCallback\<close> message, and changes nothing else. The theorem also
  fixes what the handler has done by then: one call, \<^verbatim>\<open>close\<close>, on the installed
  provider, which stays installed; no call of the factory; and no message other than those
  of the slots the provider invoked during the call.
\<close>

theorem close_keeps_callbacks_forwarding:
  assumes "provider r = Some p"
    and "provider_close env (state p) = (invs, Inr u, s')"
    and "r' = snd (close_handler env r)"
  shows "fst (close_handler env r) = Inr u
    \<and> provider r' = Some (p\<lparr> state := s' \<rparr>)
    \<and> created r' = created r
    \<and> calls r' = calls r @ [(ident p, CallClose)]
    \<and> sent r' =
        sent r @ map (\<lambda>i. (''extensionPointCallback'',
                case i of
                  Progress y \<Rightarrow> \<lparr> type = ''progressCallback'', data = y \<rparr>
                | ReportMetadata y \<Rightarrow> \<lparr> type = ''reportMetadataCallback'', data = y \<rparr>
                | NotifyPlayerManager y \<Rightarrow> \<lparr> type = ''notifyPlayerManager'', data = y \<rparr>)) invs
    \<and> callback (Progress x) r' =
        r'\<lparr> sent := sent r' @
          [(''extensionPointCallback'', \<lparr> type = ''progressCallback'', data = x \<rparr>)] \<rparr>
    \<and> callback (ReportMetadata x) r' =
        r'\<lparr> sent := sent r' @
          [(''extensionPointCallback'', \<lparr> type = ''reportMetadataCallback'', data = x \<rparr>)] \<rparr>
    \<and> callback (NotifyPlayerManager x) r' =
        r'\<lparr> sent := sent r' @
          [(''extensionPointCallback'', \<lparr> type = ''notifyPlayerManager'', data = x \<rparr>)] \<rparr>"
proof -
  from assms have r': "r' = r\<lparr> provider := Some (p\<lparr> state := s' \<rparr>),
               calls := calls r @ [(ident p, CallClose)],
               sent := invoke_all extensionPoint invs (sent r) \<rparr>"
    and out: "fst (close_handler env r) = Inr u"
    by (simp_all add: close_handler_Some)
  have "provider r' = Some (p\<lparr> state := s' \<rparr>)" and "created r' = created r"
    and "calls r' = calls r @ [(ident p, CallClose)]"
    by (simp_all add: r')
  moreover have "sent r' =
        sent r @ map (\<lambda>i. (''extensionPointCallback'',
                case i of
                  Progress y \<Rightarrow> \<lparr> type = ''progressCallback'', data = y \<rparr>
                | ReportMetadata y \<Rightarrow> \<lparr> type = ''reportMetadataCallback'', data = y \<rparr>
                | NotifyPlayerManager y \<Rightarrow> \<lparr> type = ''notifyPlayerManager'', data = y \<rparr>)) invs"
    by (simp add: r' invoke_all_extensionPoint)
  ultimately show ?thesis
    using out by (simp add: callback_def extensionPoint_slots)
qed

text \<open>
  Witness for the amended C3: \<^verbatim>\<open>initialize\<close>, a \<^verbatim>\<open>close\<close> that resolves, then an
  invocation of the progress slot.
\<close>

theorem close_keeps_callbacks_forwarding_witness:
  "provider (initialized []) = Some \<lparr> ident = 0, state = [] \<rparr>
   \<and> provider_close (example_provider []) [] = ([], Inr (), [])
   \<and> fst (close_handler (example_provider []) (initialized [])) = Inr ()
   \<and> provider (snd (close_handler (example_provider []) (initialized [])))
       = Some \<lparr> ident = 0, state = [] \<rparr>
   \<and> calls (snd (close_handler (example_provider []) (initialized [])))
       = [(0, CallInitialize), (0, CallClose)]
   \<and> sent (snd (close_handler (example_provider []) (initialized []))) =
       [(''extensionPointCallback'',
           \<lparr> type = ''reportMetadataCallback'', data = ''totalMessages: 10'' \<rparr>)]
   \<and> sent (callback (Progress ''50%'') (snd (close_handler (example_provider []) (initialized [])))) =
       [(''extensionPointCallback'',
           \<lparr> type = ''reportMetadataCallback'', data = ''totalMessages: 10'' \<rparr>),
        (''extensionPointCallback'', \<lparr> type = ''progressCallback'', data = ''50%'' \<rparr>)]"
proof -
  have h1: "provider (initialized []) = Some \<lparr> ident = 0, state = [] \<rparr>"
    by (simp add: initialized_eq)
  have h2: "provider_close (example_provider []) (state \<lparr> ident = 0, state = [] \<rparr>)
              = ([], Inr (), [])"
    by (simp add: example_provider_close)
  from close_keeps_callbacks_forwarding [OF h1 h2 refl, of "''50%''"] h1 h2
  show ?thesis by (simp add: initialized_eq)
qed

end
